theory Spec2Isabelle
  imports Main
begin

section \<open>Data model\<close>

text \<open>
  \<^verbatim>\<open>portainer.EndpointID\<close> is a Go \<^verbatim>\<open>int\<close> and \<^verbatim>\<open>LastCheckInDate\<close> an \<^verbatim>\<open>int64\<close>
  (Unix seconds). The endpoint service only stores, loads and compares these numbers, it
  never does arithmetic on them, so both are modelled as \<open>int\<close>.
\<close>

type_synonym EndpointID = int

text \<open>
  The fields of \<^verbatim>\<open>portainer.Endpoint\<close> (api/portainer.go) that the endpoint service reads
  or writes, and \<^verbatim>\<open>Name\<close> standing for the payload it passes through untouched.
\<close>

record Endpoint =
  ID :: EndpointID
  Name :: string
  EdgeID :: string
  LastCheckInDate :: int

text \<open>
  The error a store call returns (\<^verbatim>\<open>tx.Error\<close>, or the error of \<^verbatim>\<open>GetByID\<close>): the store
  failed, or it holds no record under the ID.
\<close>

datatype error = StoreError string | NotFound

subsection \<open>The persistent store\<close>

text \<open>
  Modelled from the spec: the persistent store behind \<^verbatim>\<open>service.connection.GetDB()\<close> is an
  external collaborator whose code is not part of the sources. Section 6 of the
  specification gives its contract: a full scan, a save with insert-or-replace semantics
  keyed by ID, a delete by ID, and every call either succeeds or returns an error. The
  table is the list of rows in scan order; \<open>fault\<close> is the error the next call returns, if
  the store is unavailable.
\<close>

record Connection =
  rows :: "Endpoint list"
  fault :: "error option"

text \<open>Modelled from the spec: \<^verbatim>\<open>db.Find(&endpoints)\<close>, the full scan (\<open>scanAll\<close>).\<close>

definition db_Find :: "Connection \<Rightarrow> error + Endpoint list" where
  "db_Find db = (case fault db of Some err \<Rightarrow> Inl err | None \<Rightarrow> Inr (rows db))"

text \<open>
  Modelled from the spec: \<^verbatim>\<open>connection.GetByID(int(ID), &obj)\<close>, the record stored under
  the ID, or \<open>NotFound\<close> (\<open>getByID\<close>).
\<close>

definition db_GetByID :: "EndpointID \<Rightarrow> Connection \<Rightarrow> error + Endpoint" where
  "db_GetByID i db =
     (case fault db of
        Some err \<Rightarrow> Inl err
      | None \<Rightarrow> (case find (\<lambda>r. ID r = i) (rows db) of
                   None \<Rightarrow> Inl NotFound
                 | Some r \<Rightarrow> Inr r))"

text \<open>
  Modelled from the spec: the row update of a save, which replaces the row stored under
  the record's ID or, when there is none, inserts the record.
\<close>

fun replace_row :: "Endpoint \<Rightarrow> Endpoint list \<Rightarrow> Endpoint list" where
  "replace_row e [] = [e]"
| "replace_row e (r # rs) = (if ID r = ID e then e # rs else r # replace_row e rs)"

text \<open>
  Modelled from the spec: \<^verbatim>\<open>db.Save(&endpoint)\<close>, insert or replace keyed by ID (\<open>save\<close>).
\<close>

definition db_Save :: "Endpoint \<Rightarrow> Connection \<Rightarrow> error option \<times> Connection" where
  "db_Save e db =
     (case fault db of
        Some err \<Rightarrow> (Some err, db)
      | None \<Rightarrow> (None, db\<lparr>rows := replace_row e (rows db)\<rparr>))"

text \<open>
  Modelled from the spec: \<^verbatim>\<open>db.Model(&portainer.Endpoint{}).Delete("id = ?", ID)\<close>, delete by
  ID (\<open>delete\<close>).
\<close>

definition db_Delete :: "EndpointID \<Rightarrow> Connection \<Rightarrow> error option \<times> Connection" where
  "db_Delete i db =
     (case fault db of
        Some err \<Rightarrow> (Some err, db)
      | None \<Rightarrow> (None, db\<lparr>rows := filter (\<lambda>r. ID r \<noteq> i) (rows db)\<rparr>))"

text \<open>
  Modelled from the spec: \<^verbatim>\<open>db.Model(&portainer.Endpoint{}).Create(&endpoint)\<close>, insert a
  new row. The row keeps the ID it carries; a second row under an ID already present is
  refused, IDs being unique.
\<close>

definition db_Create :: "Endpoint \<Rightarrow> Connection \<Rightarrow> error option \<times> Connection" where
  "db_Create e db =
     (case fault db of
        Some err \<Rightarrow> (Some err, db)
      | None \<Rightarrow>
          if ID e \<in> set (map ID (rows db)) then (Some (StoreError ''duplicate key''), db)
          else (None, db\<lparr>rows := rows db @ [e]\<rparr>))"

section \<open>The endpoint service (api/dataservices/endpoint/endpoint.go)\<close>

text \<open>
  \<^verbatim>\<open>type Service struct { connection; mu sync.RWMutex; idxEdgeID map[string]EndpointID;
  heartbeats sync.Map }\<close>. The model is sequential, so the mutex has no counterpart; the
  two maps are partial functions, where \<open>None\<close> is an absent key.
\<close>

record Service =
  connection :: Connection
  idxEdgeID :: "string \<rightharpoonup> EndpointID"
  heartbeats :: "EndpointID \<rightharpoonup> int"

definition NewService :: "Connection \<Rightarrow> Service" where
  "NewService conn = \<lparr>connection = conn, idxEdgeID = Map.empty, heartbeats = Map.empty\<rparr>"

text \<open>
  \<^verbatim>\<open>func (service *Service) endpoints() ([]portainer.Endpoint, error)\<close>: the scan, or its
  error and no list.
\<close>

definition endpoints :: "Service \<Rightarrow> error + Endpoint list" where
  "endpoints service =
     (case db_Find (connection service) of
        Inl err \<Rightarrow> Inl err
      | Inr es \<Rightarrow> Inr es)"

text \<open>The body of the loop of \<^verbatim>\<open>Init\<close>, for one scanned record.\<close>

definition Init_step :: "Endpoint \<Rightarrow> Service \<Rightarrow> Service" where
  "Init_step e service =
     (let s1 = (if length (EdgeID e) > 0
                then service\<lparr>idxEdgeID := (idxEdgeID service)(EdgeID e \<mapsto> ID e)\<rparr>
                else service)
      in s1\<lparr>heartbeats := (heartbeats s1)(ID e \<mapsto> LastCheckInDate e)\<rparr>)"

fun Init_loop :: "Endpoint list \<Rightarrow> Service \<Rightarrow> Service" where
  "Init_loop [] service = service"
| "Init_loop (e # es) service = Init_loop es (Init_step e service)"

text \<open>\<^verbatim>\<open>func (service *Service) Init() error\<close>: the returned error and the service after it.\<close>

definition Init :: "Service \<Rightarrow> error option \<times> Service" where
  "Init service =
     (case endpoints service of
        Inl err \<Rightarrow> (Some err, service)
      | Inr es \<Rightarrow> (None, Init_loop es service))"

text \<open>
  \<^verbatim>\<open>Endpoint(ID) (*portainer.Endpoint, error)\<close>: the record stored under the ID, or the
  store's error and no record.
\<close>

definition Endpoint_by_ID :: "EndpointID \<Rightarrow> Service \<Rightarrow> error + Endpoint" where
  "Endpoint_by_ID i service =
     (case db_GetByID i (connection service) of
        Inl err \<Rightarrow> Inl err
      | Inr obj \<Rightarrow> Inr obj)"

text \<open>
  \<^verbatim>\<open>UpdateEndpoint(ID, endpoint)\<close>: sets \<^verbatim>\<open>endpoint.ID = ID\<close>, saves, and returns the
  store's error if any. Nothing else of the service is written.
\<close>

definition UpdateEndpoint :: "EndpointID \<Rightarrow> Endpoint \<Rightarrow> Service \<Rightarrow> error option \<times> Service" where
  "UpdateEndpoint i endpoint service =
     (let endpoint' = endpoint\<lparr>ID := i\<rparr>;
          (err, db') = db_Save endpoint' (connection service)
      in case err of
           Some e \<Rightarrow> (Some e, service\<lparr>connection := db'\<rparr>)
         | None \<Rightarrow> (None, service\<lparr>connection := db'\<rparr>))"

text \<open>\<^verbatim>\<open>DeleteEndpoint(ID)\<close>: deletes the row and returns the store's error if any.\<close>

definition DeleteEndpoint :: "EndpointID \<Rightarrow> Service \<Rightarrow> error option \<times> Service" where
  "DeleteEndpoint i service =
     (let (err, db') = db_Delete i (connection service)
      in case err of
           Some e \<Rightarrow> (Some e, service\<lparr>connection := db'\<rparr>)
         | None \<Rightarrow> (None, service\<lparr>connection := db'\<rparr>))"

text \<open>
  \<^verbatim>\<open>Heartbeat(endpointID) (int64, bool)\<close>: the cached value and \<^verbatim>\<open>true\<close>, or
  \<^verbatim>\<open>0, false\<close> when the cache has no entry.
\<close>

definition Heartbeat :: "EndpointID \<Rightarrow> Service \<Rightarrow> int \<times> bool" where
  "Heartbeat endpointID service =
     (case heartbeats service endpointID of
        Some t \<Rightarrow> (t, True)
      | None \<Rightarrow> (0, False))"

text \<open>
  \<^verbatim>\<open>UpdateHeartbeat(endpointID)\<close> stores \<^verbatim>\<open>time.Now().Unix()\<close>; the reading of the wall
  clock is the argument \<open>now\<close>.
\<close>

definition UpdateHeartbeat :: "int \<Rightarrow> EndpointID \<Rightarrow> Service \<Rightarrow> Service" where
  "UpdateHeartbeat now endpointID service =
     service\<lparr>heartbeats := (heartbeats service)(endpointID \<mapsto> now)\<rparr>"

text \<open>
  \<^verbatim>\<open>Endpoints()\<close>: the scan, then \<^verbatim>\<open>t, _ := service.Heartbeat(e.ID);
  endpoints[i].LastCheckInDate = t\<close> for every scanned record.
\<close>

definition Endpoints :: "Service \<Rightarrow> error + Endpoint list" where
  "Endpoints service =
     (case endpoints service of
        Inl err \<Rightarrow> Inl err
      | Inr es \<Rightarrow>
          Inr (map (\<lambda>e. e\<lparr>LastCheckInDate := fst (Heartbeat (ID e) service)\<rparr>) es))"

text \<open>
  \<^verbatim>\<open>EndpointIDByEdgeID(edgeID) (portainer.EndpointID, bool)\<close>: a Go map read, which gives
  the zero value and \<^verbatim>\<open>false\<close> for an absent key.
\<close>

definition EndpointIDByEdgeID :: "string \<Rightarrow> Service \<Rightarrow> EndpointID \<times> bool" where
  "EndpointIDByEdgeID edgeID service =
     (case idxEdgeID service edgeID of
        Some endpointID \<Rightarrow> (endpointID, True)
      | None \<Rightarrow> (0, False))"

text \<open>\<^verbatim>\<open>Create(endpoint)\<close>: inserts the row and returns the store's error if any.\<close>

definition Create :: "Endpoint \<Rightarrow> Service \<Rightarrow> error option \<times> Service" where
  "Create endpoint service =
     (let (err, db') = db_Create endpoint (connection service)
      in case err of
           Some e \<Rightarrow> (Some e, service\<lparr>connection := db'\<rparr>)
         | None \<Rightarrow> (None, service\<lparr>connection := db'\<rparr>))"

text \<open>
  The heartbeat observed after each of a sequence of \<^verbatim>\<open>UpdateHeartbeat\<close> calls on one
  ID: the calls run one after the other, at the clock readings \<open>ts\<close>, and each is
  followed by a \<^verbatim>\<open>Heartbeat\<close> read of the same ID.
\<close>

fun heartbeat_trace :: "EndpointID \<Rightarrow> int list \<Rightarrow> Service \<Rightarrow> int list" where
  "heartbeat_trace endpointID [] service = []"
| "heartbeat_trace endpointID (now # ts) service =
     (let service' = UpdateHeartbeat now endpointID service
      in fst (Heartbeat endpointID service') # heartbeat_trace endpointID ts service')"

section \<open>The tunnel coordinator\<close>

text \<open>
  The tunnel states of api/portainer.go: \<^verbatim>\<open>EdgeAgentIdle\<close>,
  \<^verbatim>\<open>EdgeAgentManagementRequired\<close> and \<^verbatim>\<open>EdgeAgentActive\<close>.
\<close>

definition EdgeAgentIdle :: string where
  "EdgeAgentIdle = ''IDLE''"

definition EdgeAgentManagementRequired :: string where
  "EdgeAgentManagementRequired = ''REQUIRED''"

definition EdgeAgentActive :: string where
  "EdgeAgentActive = ''ACTIVE''"

text \<open>
  Modelled from the spec: the sources hold only the interface \<^verbatim>\<open>ReverseTunnelService\<close> and
  the struct \<^verbatim>\<open>TunnelDetails\<close>; the implementation of the coordinator is missing. Section 3
  of the specification gives the state kept per environment ID: the state (idle,
  required or active), the keep-alive deadline (a timestamp in seconds after which,
  without renewed activity, the state reverts to idle) and the assigned listener port
  (\<open>0\<close> when released).
\<close>

record TunnelDetails =
  Status :: string
  Deadline :: int
  Port :: int

text \<open>
  Modelled from the spec: the coordinator is the table of tunnel states by environment ID
  and the configured keep-alive duration in seconds.
\<close>

record Coordinator =
  tunnels :: "EndpointID \<rightharpoonup> TunnelDetails"
  keepAliveDuration :: int

text \<open>
  Modelled from the spec: a tunnel state is created lazily on first reference, in the
  initial state idle.
\<close>

definition tunnel_of :: "EndpointID \<Rightarrow> Coordinator \<Rightarrow> TunnelDetails" where
  "tunnel_of endpointID c =
     (case tunnels c endpointID of
        Some t \<Rightarrow> t
      | None \<Rightarrow> \<lparr>Status = EdgeAgentIdle, Deadline = 0, Port = 0\<rparr>)"

text \<open>
  Modelled from the spec: \<open>setRequired\<close> takes idle and active to required and leaves
  required as it is; it never fails.
\<close>

definition setRequired :: "EndpointID \<Rightarrow> Coordinator \<Rightarrow> Coordinator" where
  "setRequired endpointID c =
     c\<lparr>tunnels := (tunnels c)(endpointID \<mapsto>
          (tunnel_of endpointID c)\<lparr>Status := EdgeAgentManagementRequired\<rparr>)\<rparr>"

text \<open>
  Modelled from the spec: \<open>setActive\<close> takes any state to active, resets the keep-alive
  deadline to the configured duration from the current time \<open>now\<close>, and records the
  assigned listener port.
\<close>

definition setActive :: "int \<Rightarrow> int \<Rightarrow> EndpointID \<Rightarrow> Coordinator \<Rightarrow> Coordinator" where
  "setActive now port endpointID c =
     c\<lparr>tunnels := (tunnels c)(endpointID \<mapsto>
          \<lparr>Status = EdgeAgentActive, Deadline = now + keepAliveDuration c, Port = port\<rparr>)\<rparr>"

text \<open>Modelled from the spec: \<open>setIdle\<close> forces idle and releases the port.\<close>

definition setIdle :: "EndpointID \<Rightarrow> Coordinator \<Rightarrow> Coordinator" where
  "setIdle endpointID c =
     c\<lparr>tunnels := (tunnels c)(endpointID \<mapsto>
          (tunnel_of endpointID c)\<lparr>Status := EdgeAgentIdle, Port := 0\<rparr>)\<rparr>"

text \<open>
  Modelled from the spec: \<open>keepAlive\<close> extends the deadline by \<open>duration\<close> while the
  tunnel is active, and does nothing otherwise.
\<close>

definition keepAlive :: "EndpointID \<Rightarrow> int \<Rightarrow> Coordinator \<Rightarrow> Coordinator" where
  "keepAlive endpointID duration c =
     (let t = tunnel_of endpointID c
      in if Status t = EdgeAgentActive
         then c\<lparr>tunnels := (tunnels c)(endpointID \<mapsto> t\<lparr>Deadline := Deadline t + duration\<rparr>)\<rparr>
         else c)"

text \<open>Modelled from the spec: \<open>status\<close>, the state of the environment's tunnel.\<close>

definition status :: "EndpointID \<Rightarrow> Coordinator \<Rightarrow> string" where
  "status endpointID c = Status (tunnel_of endpointID c)"

text \<open>
  Modelled from the spec: what the background sweep, run at time \<open>now\<close>, does to one
  entry. An active entry whose deadline has elapsed is demoted to idle and its port is
  released; the deadline is the timestamp after which the state reverts, so it has
  elapsed once \<open>now\<close> is later than it.
\<close>

definition demote :: "int \<Rightarrow> TunnelDetails \<Rightarrow> TunnelDetails" where
  "demote now t =
     (if Status t = EdgeAgentActive \<and> Deadline t < now
      then t\<lparr>Status := EdgeAgentIdle, Port := 0\<rparr>
      else t)"

text \<open>Modelled from the spec: the background sweep over all entries, run at time \<open>now\<close>.\<close>

definition sweep :: "int \<Rightarrow> Coordinator \<Rightarrow> Coordinator" where
  "sweep now c = c\<lparr>tunnels := (\<lambda>endpointID. map_option (demote now) (tunnels c endpointID))\<rparr>"

section \<open>Building the registry: \<^verbatim>\<open>Init\<close>\<close>

subsection \<open>What the loop of \<^verbatim>\<open>Init\<close> does to the two maps\<close>

lemma endpoints_eq_db_Find: "endpoints service = db_Find (connection service)"
  by (simp add: endpoints_def split: sum.splits)

lemma Init_step_connection: "connection (Init_step e s) = connection s"
  by (simp add: Init_step_def Let_def)

lemma Init_loop_connection: "connection (Init_loop es s) = connection s"
  by (induction es arbitrary: s) (simp_all add: Init_step_connection)

lemma Init_step_idx:
  "idxEdgeID (Init_step e s) k = (if EdgeID e = k \<and> k \<noteq> [] then Some (ID e) else idxEdgeID s k)"
  by (auto simp add: Init_step_def Let_def)

lemma Init_step_hb:
  "heartbeats (Init_step e s) i = (if ID e = i then Some (LastCheckInDate e) else heartbeats s i)"
  by (auto simp add: Init_step_def Let_def)

lemma Init_loop_idx_sound:
  "idxEdgeID (Init_loop es s) k = Some i \<Longrightarrow>
     idxEdgeID s k = Some i \<or> (k \<noteq> [] \<and> (\<exists>e\<in>set es. EdgeID e = k \<and> ID e = i))"
proof (induction es arbitrary: s)
  case Nil
  then show ?case by simp
next
  case (Cons e es)
  from Cons.IH [of "Init_step e s"] Cons.prems
  show ?case by (auto simp add: Init_step_idx split: if_splits)
qed

lemma Init_loop_idx_stable:
  "idxEdgeID s k = Some i \<Longrightarrow> \<forall>e\<in>set es. EdgeID e = k \<longrightarrow> ID e = i \<Longrightarrow>
     idxEdgeID (Init_loop es s) k = Some i"
proof (induction es arbitrary: s)
  case Nil
  then show ?case by simp
next
  case (Cons e es)
  have "idxEdgeID (Init_step e s) k = Some i"
    using Cons.prems by (simp add: Init_step_idx)
  then show ?case using Cons.IH [of "Init_step e s"] Cons.prems by simp
qed

lemma Init_loop_idx_complete:
  "e \<in> set es \<Longrightarrow> EdgeID e \<noteq> [] \<Longrightarrow> \<forall>e'\<in>set es. EdgeID e' = EdgeID e \<longrightarrow> ID e' = ID e \<Longrightarrow>
     idxEdgeID (Init_loop es s) (EdgeID e) = Some (ID e)"
proof (induction es arbitrary: s)
  case Nil
  then show ?case by simp
next
  case (Cons a es)
  have rest: "\<forall>e'\<in>set es. EdgeID e' = EdgeID e \<longrightarrow> ID e' = ID e"
    using Cons.prems(3) by auto
  show ?case
  proof (cases "e \<in> set es")
    case True
    from Cons.IH [OF True Cons.prems(2) rest, of "Init_step a s"]
    show ?thesis by simp
  next
    case False
    then have "a = e" using Cons.prems(1) by simp
    then have "idxEdgeID (Init_step a s) (EdgeID e) = Some (ID e)"
      using Cons.prems(2) by (simp add: Init_step_idx)
    from Init_loop_idx_stable [OF this rest]
    show ?thesis by simp
  qed
qed

lemma Init_loop_hb_dom:
  "dom (heartbeats (Init_loop es s)) = dom (heartbeats s) \<union> ID ` set es"
  by (induction es arbitrary: s) (auto simp add: Init_step_hb dom_def split: if_splits)

lemma Init_loop_hb_keep:
  "i \<notin> ID ` set es \<Longrightarrow> heartbeats (Init_loop es s) i = heartbeats s i"
  by (induction es arbitrary: s) (auto simp add: Init_step_hb)

lemma Init_loop_hb_complete:
  "e \<in> set es \<Longrightarrow> distinct (map ID es) \<Longrightarrow>
     heartbeats (Init_loop es s) (ID e) = Some (LastCheckInDate e)"
proof (induction es arbitrary: s)
  case Nil
  then show ?case by simp
next
  case (Cons a es)
  show ?case
  proof (cases "e \<in> set es")
    case True
    then show ?thesis using Cons.IH [of "Init_step a s"] Cons.prems by simp
  next
    case False
    then have ae: "a = e" using Cons.prems by simp
    then have "ID e \<notin> ID ` set es" using Cons.prems by simp
    then have "heartbeats (Init_loop es (Init_step a s)) (ID e) = heartbeats (Init_step a s) (ID e)"
      by (rule Init_loop_hb_keep)
    then show ?thesis using ae by (simp add: Init_step_hb)
  qed
qed

subsection \<open>The index and the cache after a successful \<^verbatim>\<open>Init\<close>\<close>

text \<open>
  Claim C3. Let \<open>Init\<close> run on a new service whose store scan succeeds with the records
  \<open>es\<close>, where the records have distinct IDs and no two environments share a non-empty
  edge-ID (the data model: IDs are unique, an edge-ID is unique when present). Then
  \<open>Init\<close> returns no error; the edge-ID index maps \<open>k\<close> to \<open>i\<close> exactly when \<open>k\<close> is
  non-empty and some record has edge-ID \<open>k\<close> and ID \<open>i\<close>, so a record with an empty edge-ID
  gets no entry; and the heartbeat cache holds, for every record, the record's persisted
  \<open>LastCheckInDate\<close>, and has entries for the IDs of the records only.
\<close>

theorem Init_builds_index_and_cache:
  assumes scan: "endpoints (NewService conn) = Inr es"
    and ids: "distinct (map ID es)"
    and edge: "\<forall>e\<in>set es. \<forall>e'\<in>set es. EdgeID e = EdgeID e' \<and> EdgeID e \<noteq> [] \<longrightarrow> ID e = ID e'"
  shows "fst (Init (NewService conn)) = None
       \<and> (\<forall>k i. (idxEdgeID (snd (Init (NewService conn))) k = Some i)
                = (k \<noteq> [] \<and> (\<exists>e\<in>set es. EdgeID e = k \<and> ID e = i)))
       \<and> (\<forall>e\<in>set es. heartbeats (snd (Init (NewService conn))) (ID e) = Some (LastCheckInDate e))
       \<and> dom (heartbeats (snd (Init (NewService conn)))) = ID ` set es"
proof -
  define s where "s = NewService conn"
  define s' where "s' = Init_loop es s"
  have I: "Init (NewService conn) = (None, s')"
    using scan by (simp add: Init_def s_def s'_def)
  have e0: "idxEdgeID s k = None" "heartbeats s i = None" for k i
    by (simp_all add: NewService_def s_def)
  have idx: "(idxEdgeID s' k = Some i) = (k \<noteq> [] \<and> (\<exists>e\<in>set es. EdgeID e = k \<and> ID e = i))" for k i
  proof
    assume "idxEdgeID s' k = Some i"
    then have "idxEdgeID (Init_loop es s) k = Some i" by (simp add: s'_def)
    from Init_loop_idx_sound [OF this]
    show "k \<noteq> [] \<and> (\<exists>e\<in>set es. EdgeID e = k \<and> ID e = i)"
      by (simp add: e0)
  next
    assume "k \<noteq> [] \<and> (\<exists>e\<in>set es. EdgeID e = k \<and> ID e = i)"
    then obtain e where e: "e \<in> set es" "EdgeID e = k" "ID e = i" "k \<noteq> []" by blast
    have ne: "EdgeID e \<noteq> []" using e by simp
    have "\<forall>e'\<in>set es. EdgeID e' = EdgeID e \<longrightarrow> ID e' = ID e"
    proof (intro ballI impI)
      fix e' assume "e' \<in> set es" "EdgeID e' = EdgeID e"
      with edge e(1) ne show "ID e' = ID e" by fastforce
    qed
    from Init_loop_idx_complete [OF e(1) ne this, of s]
    show "idxEdgeID s' k = Some i" using e(2,3) by (simp add: s'_def)
  qed
  have hb: "heartbeats s' (ID e) = Some (LastCheckInDate e)" if "e \<in> set es" for e
    using Init_loop_hb_complete [OF that ids, of s] by (simp add: s'_def)
  have "dom (heartbeats s) = {}" by (simp add: NewService_def s_def)
  then have dm: "dom (heartbeats s') = ID ` set es"
    by (simp add: Init_loop_hb_dom s'_def)
  show ?thesis
    unfolding I fst_conv snd_conv
  proof (intro conjI allI ballI)
    show "None = None" by simp
  next
    fix k i show "(idxEdgeID s' k = Some i) = (k \<noteq> [] \<and> (\<exists>e\<in>set es. EdgeID e = k \<and> ID e = i))"
      by (rule idx)
  next
    fix e assume "e \<in> set es" then show "heartbeats s' (ID e) = Some (LastCheckInDate e)" by (rule hb)
  next
    show "dom (heartbeats s') = ID ` set es" by (rule dm)
  qed
qed

theorem Init_builds_index_and_cache_witness:
  "endpoints (NewService
      \<lparr>rows = [\<lparr>ID = 7, Name = ''a'', EdgeID = ''edge-abc'', LastCheckInDate = 100\<rparr>,
               \<lparr>ID = 8, Name = ''b'', EdgeID = [], LastCheckInDate = 200\<rparr>], fault = None\<rparr>)
     = Inr [\<lparr>ID = 7, Name = ''a'', EdgeID = ''edge-abc'', LastCheckInDate = 100\<rparr>,
            \<lparr>ID = 8, Name = ''b'', EdgeID = [], LastCheckInDate = 200\<rparr>]
   \<and> fst (Init (NewService
      \<lparr>rows = [\<lparr>ID = 7, Name = ''a'', EdgeID = ''edge-abc'', LastCheckInDate = 100\<rparr>,
               \<lparr>ID = 8, Name = ''b'', EdgeID = [], LastCheckInDate = 200\<rparr>], fault = None\<rparr>)) = None
   \<and> idxEdgeID (snd (Init (NewService
      \<lparr>rows = [\<lparr>ID = 7, Name = ''a'', EdgeID = ''edge-abc'', LastCheckInDate = 100\<rparr>,
               \<lparr>ID = 8, Name = ''b'', EdgeID = [], LastCheckInDate = 200\<rparr>], fault = None\<rparr>)))
        ''edge-abc'' = Some 7
   \<and> idxEdgeID (snd (Init (NewService
      \<lparr>rows = [\<lparr>ID = 7, Name = ''a'', EdgeID = ''edge-abc'', LastCheckInDate = 100\<rparr>,
               \<lparr>ID = 8, Name = ''b'', EdgeID = [], LastCheckInDate = 200\<rparr>], fault = None\<rparr>)))
        [] \<noteq> Some 8
   \<and> heartbeats (snd (Init (NewService
      \<lparr>rows = [\<lparr>ID = 7, Name = ''a'', EdgeID = ''edge-abc'', LastCheckInDate = 100\<rparr>,
               \<lparr>ID = 8, Name = ''b'', EdgeID = [], LastCheckInDate = 200\<rparr>], fault = None\<rparr>)))
        8 = Some 200"
proof -
  let ?e7 = "\<lparr>ID = 7, Name = ''a'', EdgeID = ''edge-abc'', LastCheckInDate = 100\<rparr>"
  let ?e8 = "\<lparr>ID = 8, Name = ''b'', EdgeID = [], LastCheckInDate = 200\<rparr>"
  let ?conn = "\<lparr>rows = [?e7, ?e8], fault = None\<rparr>"
  let ?s' = "snd (Init (NewService ?conn))"
  have scan: "endpoints (NewService ?conn) = Inr [?e7, ?e8]"
    by (simp add: endpoints_def db_Find_def NewService_def)
  have ids: "distinct (map ID [?e7, ?e8])" by simp
  have edge: "\<forall>e\<in>set [?e7, ?e8]. \<forall>e'\<in>set [?e7, ?e8].
                EdgeID e = EdgeID e' \<and> EdgeID e \<noteq> [] \<longrightarrow> ID e = ID e'"
    by simp
  note T = Init_builds_index_and_cache [OF scan ids edge]
  have ok: "fst (Init (NewService ?conn)) = None" using T by blast
  have idx: "(idxEdgeID ?s' k = Some i)
               = (k \<noteq> [] \<and> (\<exists>e\<in>set [?e7, ?e8]. EdgeID e = k \<and> ID e = i))" for k i
    using T by blast
  have hb: "\<forall>e\<in>set [?e7, ?e8]. heartbeats ?s' (ID e) = Some (LastCheckInDate e)"
    using T by blast
  have 1: "idxEdgeID ?s' ''edge-abc'' = Some 7"
    unfolding idx by simp
  have 2: "idxEdgeID ?s' [] \<noteq> Some 8"
    unfolding idx by simp
  have 3: "heartbeats ?s' 8 = Some 200"
    using hb by simp
  show ?thesis using scan ok 1 2 3 by blast
qed

subsection \<open>Failure of the store scan\<close>

text \<open>
  Claim C8. \<open>Init\<close> returns an error exactly when the store's full scan fails, and it is
  the scan's error; on that failure the service is unchanged, so on a new service the
  edge-ID index and the heartbeat cache stay empty. \<open>Endpoints\<close> likewise returns an
  error, and no list, exactly when its scan fails, and a list exactly when the scan
  succeeds.
\<close>

theorem Init_fails_iff_scan_fails:
  "(fst (Init service) = Some err) = (db_Find (connection service) = Inl err)
   \<and> (db_Find (connection service) = Inl err \<longrightarrow> snd (Init service) = service)
   \<and> (db_Find conn = Inl err \<longrightarrow>
        idxEdgeID (snd (Init (NewService conn))) = Map.empty
        \<and> heartbeats (snd (Init (NewService conn))) = Map.empty)
   \<and> (Endpoints service = Inl err) = (db_Find (connection service) = Inl err)
   \<and> (\<exists>out. Endpoints service = Inr out) = (\<exists>es. db_Find (connection service) = Inr es)"
proof (intro conjI impI)
  show "(fst (Init service) = Some err) = (db_Find (connection service) = Inl err)"
    by (simp add: Init_def endpoints_eq_db_Find split: sum.splits)
next
  assume "db_Find (connection service) = Inl err"
  then show "snd (Init service) = service"
    by (simp add: Init_def endpoints_eq_db_Find)
next
  assume "db_Find conn = Inl err"
  then show "idxEdgeID (snd (Init (NewService conn))) = Map.empty"
    by (simp add: Init_def endpoints_eq_db_Find NewService_def)
next
  assume "db_Find conn = Inl err"
  then show "heartbeats (snd (Init (NewService conn))) = Map.empty"
    by (simp add: Init_def endpoints_eq_db_Find NewService_def)
next
  show "(Endpoints service = Inl err) = (db_Find (connection service) = Inl err)"
    by (simp add: Endpoints_def endpoints_eq_db_Find split: sum.splits)
next
  show "(\<exists>out. Endpoints service = Inr out) = (\<exists>es. db_Find (connection service) = Inr es)"
    by (simp add: Endpoints_def endpoints_eq_db_Find split: sum.splits)
qed

theorem Init_fails_iff_scan_fails_witness:
  "db_Find \<lparr>rows = [], fault = Some (StoreError ''unreachable'')\<rparr> = Inl (StoreError ''unreachable'')
   \<and> Init (NewService \<lparr>rows = [], fault = Some (StoreError ''unreachable'')\<rparr>)
       = (Some (StoreError ''unreachable''), NewService \<lparr>rows = [], fault = Some (StoreError ''unreachable'')\<rparr>)
   \<and> Endpoints (NewService \<lparr>rows = [], fault = Some (StoreError ''unreachable'')\<rparr>)
       = Inl (StoreError ''unreachable'')"
proof -
  let ?c = "\<lparr>rows = [], fault = Some (StoreError ''unreachable'')\<rparr>"
  have f: "db_Find ?c = Inl (StoreError ''unreachable'')" by (simp add: db_Find_def)
  have c: "connection (NewService ?c) = ?c" by (simp add: NewService_def)
  from Init_fails_iff_scan_fails [of "NewService ?c" "StoreError ''unreachable''" ?c]
  show ?thesis using f c by (simp add: prod_eq_iff)
qed

section \<open>Listing: \<^verbatim>\<open>Endpoints\<close>\<close>

text \<open>
  Claim C4, as the code has it. When the store scan succeeds with the records \<open>es\<close>,
  \<open>Endpoints\<close> returns these records in scan order, each with its \<open>LastCheckInDate\<close>
  replaced by what \<open>Heartbeat\<close> returns for the record's ID: the cached heartbeat where
  the cache has an entry, and zero where it has none. The found flag of \<open>Heartbeat\<close> is
  discarded, so the persisted value is never kept.
\<close>

theorem Endpoints_overlay:
  assumes "endpoints service = Inr es"
  shows "\<exists>out. Endpoints service = Inr out \<and> length out = length es
           \<and> (\<forall>n<length es.
                 out ! n = (es ! n)\<lparr>LastCheckInDate :=
                             (case heartbeats service (ID (es ! n)) of Some t \<Rightarrow> t | None \<Rightarrow> 0)\<rparr>)"
  using assms by (simp add: Endpoints_def Heartbeat_def split: option.splits)

theorem Endpoints_overlay_witness:
  "endpoints (UpdateHeartbeat 42 7
      (NewService \<lparr>rows = [\<lparr>ID = 7, Name = ''a'', EdgeID = ''edge-abc'', LastCheckInDate = 5\<rparr>,
                            \<lparr>ID = 8, Name = ''b'', EdgeID = [], LastCheckInDate = 6\<rparr>], fault = None\<rparr>))
     = Inr [\<lparr>ID = 7, Name = ''a'', EdgeID = ''edge-abc'', LastCheckInDate = 5\<rparr>,
            \<lparr>ID = 8, Name = ''b'', EdgeID = [], LastCheckInDate = 6\<rparr>]
   \<and> Endpoints (UpdateHeartbeat 42 7
      (NewService \<lparr>rows = [\<lparr>ID = 7, Name = ''a'', EdgeID = ''edge-abc'', LastCheckInDate = 5\<rparr>,
                            \<lparr>ID = 8, Name = ''b'', EdgeID = [], LastCheckInDate = 6\<rparr>], fault = None\<rparr>))
     = Inr [\<lparr>ID = 7, Name = ''a'', EdgeID = ''edge-abc'', LastCheckInDate = 42\<rparr>,
            \<lparr>ID = 8, Name = ''b'', EdgeID = [], LastCheckInDate = 0\<rparr>]"
proof -
  let ?es = "[\<lparr>ID = 7, Name = ''a'', EdgeID = ''edge-abc'', LastCheckInDate = 5\<rparr>,
              \<lparr>ID = 8, Name = ''b'', EdgeID = [], LastCheckInDate = 6\<rparr>]"
  let ?s = "UpdateHeartbeat 42 7 (NewService \<lparr>rows = ?es, fault = None\<rparr>)"
  have scan: "endpoints ?s = Inr ?es"
    by (simp add: endpoints_def db_Find_def UpdateHeartbeat_def NewService_def)
  have hb: "heartbeats ?s 7 = Some 42" "heartbeats ?s 8 = None"
    by (simp_all add: UpdateHeartbeat_def NewService_def)
  from Endpoints_overlay [OF scan] obtain out where
    out: "Endpoints ?s = Inr out" "length out = 2"
      "\<forall>n<2. out ! n = (?es ! n)\<lparr>LastCheckInDate :=
                 (case heartbeats ?s (ID (?es ! n)) of Some t \<Rightarrow> t | None \<Rightarrow> 0)\<rparr>"
    by auto
  from out(3) have "out ! 0 = \<lparr>ID = 7, Name = ''a'', EdgeID = ''edge-abc'', LastCheckInDate = 42\<rparr>"
    using hb by simp
  moreover from out(3) have "out ! 1 = \<lparr>ID = 8, Name = ''b'', EdgeID = [], LastCheckInDate = 0\<rparr>"
    using hb by simp
  ultimately have "out = [\<lparr>ID = 7, Name = ''a'', EdgeID = ''edge-abc'', LastCheckInDate = 42\<rparr>,
            \<lparr>ID = 8, Name = ''b'', EdgeID = [], LastCheckInDate = 0\<rparr>]"
    using out(2) by (simp add: list_eq_iff_nth_eq less_Suc_eq numeral_2_eq_2)
  with out(1) scan show ?thesis by simp
qed

text \<open>
  The claim as first stated, that a record keeps its persisted value when the cache has
  no entry for it, fails: a record created with \<open>LastCheckInDate = 5\<close> and no heartbeat
  recorded since is listed with \<open>LastCheckInDate = 0\<close>.
\<close>

theorem Endpoints_absent_counterexample:
  "fst (Create \<lparr>ID = 7, Name = ''a'', EdgeID = ''edge-abc'', LastCheckInDate = 5\<rparr>
          (NewService \<lparr>rows = [], fault = None\<rparr>)) = None
   \<and> heartbeats (snd (Create \<lparr>ID = 7, Name = ''a'', EdgeID = ''edge-abc'', LastCheckInDate = 5\<rparr>
          (NewService \<lparr>rows = [], fault = None\<rparr>))) 7 = None
   \<and> endpoints (snd (Create \<lparr>ID = 7, Name = ''a'', EdgeID = ''edge-abc'', LastCheckInDate = 5\<rparr>
          (NewService \<lparr>rows = [], fault = None\<rparr>)))
       = Inr [\<lparr>ID = 7, Name = ''a'', EdgeID = ''edge-abc'', LastCheckInDate = 5\<rparr>]
   \<and> Endpoints (snd (Create \<lparr>ID = 7, Name = ''a'', EdgeID = ''edge-abc'', LastCheckInDate = 5\<rparr>
          (NewService \<lparr>rows = [], fault = None\<rparr>)))
       = Inr [\<lparr>ID = 7, Name = ''a'', EdgeID = ''edge-abc'', LastCheckInDate = 0\<rparr>]
   \<and> Endpoints (snd (Create \<lparr>ID = 7, Name = ''a'', EdgeID = ''edge-abc'', LastCheckInDate = 5\<rparr>
          (NewService \<lparr>rows = [], fault = None\<rparr>)))
       \<noteq> Inr [\<lparr>ID = 7, Name = ''a'', EdgeID = ''edge-abc'', LastCheckInDate = 5\<rparr>]"
  by (simp add: Create_def db_Create_def NewService_def Endpoints_def endpoints_def db_Find_def
        Heartbeat_def)

section \<open>Heartbeats\<close>

lemma heartbeat_trace_eq: "heartbeat_trace i ts service = ts"
  by (induction ts arbitrary: service) (simp_all add: Let_def Heartbeat_def UpdateHeartbeat_def)

text \<open>
  Claim C5, as the code has it. \<open>UpdateHeartbeat\<close> followed by \<open>Heartbeat\<close> on the same ID
  returns found and exactly the clock reading of the call. So the returned timestamp is
  at least the timestamp held before the call whenever the clock reading is; and over a
  sequence of calls on one ID at non-decreasing clock readings the observed heartbeats
  are non-decreasing, also counted from the value held before the first call when the
  first reading is not earlier than it.
\<close>

theorem UpdateHeartbeat_then_Heartbeat:
  "Heartbeat i (UpdateHeartbeat now i service) = (now, True)
   \<and> (fst (Heartbeat i service) \<le> now \<longrightarrow>
        fst (Heartbeat i service) \<le> fst (Heartbeat i (UpdateHeartbeat now i service)))
   \<and> (sorted ts \<longrightarrow> sorted (heartbeat_trace i ts service))
   \<and> (sorted (fst (Heartbeat i service) # ts) \<longrightarrow>
        sorted (fst (Heartbeat i service) # heartbeat_trace i ts service))"
proof (intro conjI impI)
  show now: "Heartbeat i (UpdateHeartbeat now i service) = (now, True)"
    by (simp add: Heartbeat_def UpdateHeartbeat_def)
  assume "fst (Heartbeat i service) \<le> now"
  then show "fst (Heartbeat i service) \<le> fst (Heartbeat i (UpdateHeartbeat now i service))"
    by (simp add: now)
next
  assume "sorted ts"
  then show "sorted (heartbeat_trace i ts service)"
    by (simp add: heartbeat_trace_eq)
next
  assume "sorted (fst (Heartbeat i service) # ts)"
  then show "sorted (fst (Heartbeat i service) # heartbeat_trace i ts service)"
    by (simp add: heartbeat_trace_eq)
qed

theorem UpdateHeartbeat_then_Heartbeat_witness:
  "fst (Heartbeat 7 (UpdateHeartbeat 100 7 (NewService \<lparr>rows = [], fault = None\<rparr>))) \<le> 110
   \<and> sorted [110, 110, 125 :: int]
   \<and> Heartbeat 7 (UpdateHeartbeat 110 7 (UpdateHeartbeat 100 7 (NewService \<lparr>rows = [], fault = None\<rparr>)))
       = (110, True)
   \<and> sorted (heartbeat_trace 7 [110, 110, 125]
               (UpdateHeartbeat 100 7 (NewService \<lparr>rows = [], fault = None\<rparr>)))
   \<and> sorted (100 # heartbeat_trace 7 [110, 110, 125]
               (UpdateHeartbeat 100 7 (NewService \<lparr>rows = [], fault = None\<rparr>)))"
proof -
  let ?s = "UpdateHeartbeat 100 7 (NewService \<lparr>rows = [], fault = None\<rparr>)"
  have h: "fst (Heartbeat 7 ?s) = 100"
    by (simp add: Heartbeat_def UpdateHeartbeat_def)
  have s: "sorted [110, 110, 125 :: int]" "sorted [100, 110, 110, 125 :: int]" by simp_all
  note T = UpdateHeartbeat_then_Heartbeat [where i = 7 and now = 110 and service = ?s
      and ts = "[110, 110, 125]"]
  have 0: "fst (Heartbeat 7 ?s) \<le> 110" using h by simp
  have 1: "Heartbeat 7 (UpdateHeartbeat 110 7 ?s) = (110, True)" using T by blast
  have 2: "sorted (heartbeat_trace 7 [110, 110, 125] ?s)" using T s(1) by blast
  have "sorted (fst (Heartbeat 7 ?s) # [110, 110, 125])" using s(2) by (simp only: h)
  then have "sorted (fst (Heartbeat 7 ?s) # heartbeat_trace 7 [110, 110, 125] ?s)" using T by blast
  then have 3: "sorted (100 # heartbeat_trace 7 [110, 110, 125] ?s)" by (simp only: h)
  show ?thesis using 0 s(1) 1 2 3 by blast
qed

text \<open>
  The claim as first stated, without a condition on the clock, fails: the call overwrites
  the held value with the clock reading, whatever the two are. A cache seeded by \<open>Init\<close>
  from a persisted check-in date of 100 holds 50 after a heartbeat recorded at clock
  reading 50.
\<close>

theorem UpdateHeartbeat_backwards_counterexample:
  "Heartbeat 7 (snd (Init (NewService
       \<lparr>rows = [\<lparr>ID = 7, Name = ''a'', EdgeID = ''edge-abc'', LastCheckInDate = 100\<rparr>], fault = None\<rparr>)))
     = (100, True)
   \<and> Heartbeat 7 (UpdateHeartbeat 50 7 (snd (Init (NewService
       \<lparr>rows = [\<lparr>ID = 7, Name = ''a'', EdgeID = ''edge-abc'', LastCheckInDate = 100\<rparr>], fault = None\<rparr>))))
     = (50, True)
   \<and> \<not> fst (Heartbeat 7 (snd (Init (NewService
       \<lparr>rows = [\<lparr>ID = 7, Name = ''a'', EdgeID = ''edge-abc'', LastCheckInDate = 100\<rparr>], fault = None\<rparr>))))
      \<le> fst (Heartbeat 7 (UpdateHeartbeat 50 7 (snd (Init (NewService
       \<lparr>rows = [\<lparr>ID = 7, Name = ''a'', EdgeID = ''edge-abc'', LastCheckInDate = 100\<rparr>], fault = None\<rparr>)))))"
  by (simp add: Init_def endpoints_def db_Find_def NewService_def Init_step_def Heartbeat_def
        UpdateHeartbeat_def)

section \<open>Heartbeats of different environments are independent\<close>

text \<open>
  Claim C7. For two distinct environment IDs \<open>id1\<close> and \<open>id2\<close>, recording a heartbeat for
  \<open>id1\<close> leaves both the value and the presence flag that \<open>Heartbeat\<close> returns for \<open>id2\<close>
  as they were, and leaves the edge-ID index as it was.
\<close>

theorem UpdateHeartbeat_frame:
  assumes "id1 \<noteq> id2"
  shows "Heartbeat id2 (UpdateHeartbeat now id1 service) = Heartbeat id2 service
       \<and> idxEdgeID (UpdateHeartbeat now id1 service) = idxEdgeID service
       \<and> (\<forall>edgeID. EndpointIDByEdgeID edgeID (UpdateHeartbeat now id1 service)
                   = EndpointIDByEdgeID edgeID service)"
  using assms by (simp add: Heartbeat_def UpdateHeartbeat_def EndpointIDByEdgeID_def)

theorem UpdateHeartbeat_frame_witness:
  "(1::int) \<noteq> 2
   \<and> Heartbeat 2 (UpdateHeartbeat 50 1 (UpdateHeartbeat 40 2 (NewService \<lparr>rows = [], fault = None\<rparr>)))
       = (40, True)
   \<and> EndpointIDByEdgeID ''edge-abc''
       (UpdateHeartbeat 50 1 (UpdateHeartbeat 40 2 (NewService \<lparr>rows = [], fault = None\<rparr>)))
       = (0, False)"
proof -
  have ne: "(1::int) \<noteq> 2" by simp
  show ?thesis
    using UpdateHeartbeat_frame [OF ne, of 50 "UpdateHeartbeat 40 2 (NewService \<lparr>rows = [], fault = None\<rparr>)"]
    by (simp add: Heartbeat_def UpdateHeartbeat_def EndpointIDByEdgeID_def NewService_def)
qed

section \<open>The mutators and the edge-ID index\<close>

text \<open>
  None of the three mutators writes the index or the cache: each returns the service
  with its connection replaced and both maps as they were.
\<close>

lemma Create_maps_unchanged:
  "idxEdgeID (snd (Create endpoint service)) = idxEdgeID service
   \<and> heartbeats (snd (Create endpoint service)) = heartbeats service"
  by (simp add: Create_def split: prod.splits option.splits)

lemma UpdateEndpoint_maps_unchanged:
  "idxEdgeID (snd (UpdateEndpoint i endpoint service)) = idxEdgeID service
   \<and> heartbeats (snd (UpdateEndpoint i endpoint service)) = heartbeats service"
  by (simp add: UpdateEndpoint_def Let_def split: prod.splits option.splits)

lemma DeleteEndpoint_maps_unchanged:
  "idxEdgeID (snd (DeleteEndpoint i service)) = idxEdgeID service
   \<and> heartbeats (snd (DeleteEndpoint i service)) = heartbeats service"
  by (simp add: DeleteEndpoint_def split: prod.splits option.splits)

text \<open>
  Claim C1. An environment created with a non-empty edge-ID should resolve through
  \<open>EndpointIDByEdgeID\<close> right after \<open>Create\<close>. In the code \<open>Create\<close> writes the store only:
  after an \<open>Init\<close> on an empty store and a successful \<open>Create\<close> of environment 7 with
  edge-ID \<open>edge-abc\<close>, the lookup of \<open>edge-abc\<close> returns \<open>(0, False)\<close>, and only a second
  \<open>Init\<close> over the same store makes it return \<open>(7, True)\<close>.
\<close>

theorem Create_leaves_index_stale:
  "fst (Create \<lparr>ID = 7, Name = ''agent'', EdgeID = ''edge-abc'', LastCheckInDate = 0\<rparr>
          (snd (Init (NewService \<lparr>rows = [], fault = None\<rparr>)))) = None
   \<and> rows (connection (snd (Create \<lparr>ID = 7, Name = ''agent'', EdgeID = ''edge-abc'', LastCheckInDate = 0\<rparr>
          (snd (Init (NewService \<lparr>rows = [], fault = None\<rparr>))))))
       = [\<lparr>ID = 7, Name = ''agent'', EdgeID = ''edge-abc'', LastCheckInDate = 0\<rparr>]
   \<and> EndpointIDByEdgeID ''edge-abc''
        (snd (Create \<lparr>ID = 7, Name = ''agent'', EdgeID = ''edge-abc'', LastCheckInDate = 0\<rparr>
          (snd (Init (NewService \<lparr>rows = [], fault = None\<rparr>))))) = (0, False)
   \<and> EndpointIDByEdgeID ''edge-abc''
        (snd (Init (snd (Create \<lparr>ID = 7, Name = ''agent'', EdgeID = ''edge-abc'', LastCheckInDate = 0\<rparr>
          (snd (Init (NewService \<lparr>rows = [], fault = None\<rparr>))))))) = (7, True)"
  by (simp add: Create_def db_Create_def Init_def endpoints_def db_Find_def NewService_def
        Init_step_def EndpointIDByEdgeID_def)

text \<open>
  Claim C2. After a successful \<open>DeleteEndpoint\<close> the former edge-ID should no longer
  resolve. In the code \<open>DeleteEndpoint\<close> writes the store only: with environment 7 indexed
  under \<open>edge-abc\<close>, the delete succeeds and empties the store, and the lookup of
  \<open>edge-abc\<close> still returns \<open>(7, True)\<close>.
\<close>

theorem DeleteEndpoint_leaves_index_stale:
  "EndpointIDByEdgeID ''edge-abc''
        (snd (Init (NewService
          \<lparr>rows = [\<lparr>ID = 7, Name = ''agent'', EdgeID = ''edge-abc'', LastCheckInDate = 0\<rparr>],
           fault = None\<rparr>))) = (7, True)
   \<and> fst (DeleteEndpoint 7 (snd (Init (NewService
          \<lparr>rows = [\<lparr>ID = 7, Name = ''agent'', EdgeID = ''edge-abc'', LastCheckInDate = 0\<rparr>],
           fault = None\<rparr>)))) = None
   \<and> rows (connection (snd (DeleteEndpoint 7 (snd (Init (NewService
          \<lparr>rows = [\<lparr>ID = 7, Name = ''agent'', EdgeID = ''edge-abc'', LastCheckInDate = 0\<rparr>],
           fault = None\<rparr>)))))) = []
   \<and> EndpointIDByEdgeID ''edge-abc''
        (snd (DeleteEndpoint 7 (snd (Init (NewService
          \<lparr>rows = [\<lparr>ID = 7, Name = ''agent'', EdgeID = ''edge-abc'', LastCheckInDate = 0\<rparr>],
           fault = None\<rparr>))))) = (7, True)"
  by (simp add: DeleteEndpoint_def db_Delete_def Init_def endpoints_def db_Find_def NewService_def
        Init_step_def EndpointIDByEdgeID_def)

text \<open>
  Claim C6. After an \<open>UpdateEndpoint\<close> that changes the edge-ID, the new edge-ID should
  resolve to the environment and the old one should not. In the code \<open>UpdateEndpoint\<close>
  writes the store only: with environment 7 indexed under \<open>edge-abc\<close>, an update to
  edge-ID \<open>edge-xyz\<close> succeeds and is stored, the lookup of \<open>edge-xyz\<close> returns
  \<open>(0, False)\<close> and the lookup of \<open>edge-abc\<close> still returns \<open>(7, True)\<close>.
\<close>

theorem UpdateEndpoint_leaves_index_stale:
  "fst (UpdateEndpoint 7 \<lparr>ID = 7, Name = ''agent'', EdgeID = ''edge-xyz'', LastCheckInDate = 0\<rparr>
          (snd (Init (NewService
            \<lparr>rows = [\<lparr>ID = 7, Name = ''agent'', EdgeID = ''edge-abc'', LastCheckInDate = 0\<rparr>],
             fault = None\<rparr>)))) = None
   \<and> Endpoint_by_ID 7
        (snd (UpdateEndpoint 7 \<lparr>ID = 7, Name = ''agent'', EdgeID = ''edge-xyz'', LastCheckInDate = 0\<rparr>
          (snd (Init (NewService
            \<lparr>rows = [\<lparr>ID = 7, Name = ''agent'', EdgeID = ''edge-abc'', LastCheckInDate = 0\<rparr>],
             fault = None\<rparr>)))))
       = Inr \<lparr>ID = 7, Name = ''agent'', EdgeID = ''edge-xyz'', LastCheckInDate = 0\<rparr>
   \<and> EndpointIDByEdgeID ''edge-xyz''
        (snd (UpdateEndpoint 7 \<lparr>ID = 7, Name = ''agent'', EdgeID = ''edge-xyz'', LastCheckInDate = 0\<rparr>
          (snd (Init (NewService
            \<lparr>rows = [\<lparr>ID = 7, Name = ''agent'', EdgeID = ''edge-abc'', LastCheckInDate = 0\<rparr>],
             fault = None\<rparr>))))) = (0, False)
   \<and> EndpointIDByEdgeID ''edge-abc''
        (snd (UpdateEndpoint 7 \<lparr>ID = 7, Name = ''agent'', EdgeID = ''edge-xyz'', LastCheckInDate = 0\<rparr>
          (snd (Init (NewService
            \<lparr>rows = [\<lparr>ID = 7, Name = ''agent'', EdgeID = ''edge-abc'', LastCheckInDate = 0\<rparr>],
             fault = None\<rparr>))))) = (7, True)"
  by (simp add: UpdateEndpoint_def db_Save_def Endpoint_by_ID_def db_GetByID_def Init_def
        endpoints_def db_Find_def NewService_def Init_step_def EndpointIDByEdgeID_def)

section \<open>The ID under which \<^verbatim>\<open>UpdateEndpoint\<close> saves\<close>

lemma find_replace_row_same: "find (\<lambda>r. ID r = ID e) (replace_row e rs) = Some e"
  by (induction rs) simp_all

lemma find_replace_row_other:
  "k \<noteq> ID e \<Longrightarrow> find (\<lambda>r. ID r = k) (replace_row e rs) = find (\<lambda>r. ID r = k) rs"
  by (induction rs) auto

text \<open>
  Claim C10. \<open>UpdateEndpoint\<close> saves the record under the ID given as the argument,
  whatever ID the passed record carries: the call does the same for every value of the
  record's own ID field; after a successful call the store holds, under the argument ID,
  the passed record with its ID set to the argument; and the record stored under any
  other ID is as it was, so the update cannot re-key a record to another ID.
\<close>

theorem UpdateEndpoint_saves_under_argument_ID:
  "UpdateEndpoint i (endpoint\<lparr>ID := j\<rparr>) service = UpdateEndpoint i endpoint service
   \<and> (fst (UpdateEndpoint i endpoint service) = None \<longrightarrow>
        Endpoint_by_ID i (snd (UpdateEndpoint i endpoint service)) = Inr (endpoint\<lparr>ID := i\<rparr>))
   \<and> (k \<noteq> i \<longrightarrow>
        Endpoint_by_ID k (snd (UpdateEndpoint i endpoint service)) = Endpoint_by_ID k service)"
proof (intro conjI impI)
  show "UpdateEndpoint i (endpoint\<lparr>ID := j\<rparr>) service = UpdateEndpoint i endpoint service"
    by (simp add: UpdateEndpoint_def)
next
  assume ok: "fst (UpdateEndpoint i endpoint service) = None"
  have "find (\<lambda>r. ID r = i) (replace_row (endpoint\<lparr>ID := i\<rparr>) (rows (connection service)))
          = Some (endpoint\<lparr>ID := i\<rparr>)"
    using find_replace_row_same [of "endpoint\<lparr>ID := i\<rparr>" "rows (connection service)"] by simp
  with ok show "Endpoint_by_ID i (snd (UpdateEndpoint i endpoint service)) = Inr (endpoint\<lparr>ID := i\<rparr>)"
    by (simp add: UpdateEndpoint_def db_Save_def Endpoint_by_ID_def db_GetByID_def Let_def
          split: option.splits)
next
  assume ne: "k \<noteq> i"
  have "find (\<lambda>r. ID r = k) (replace_row (endpoint\<lparr>ID := i\<rparr>) (rows (connection service)))
          = find (\<lambda>r. ID r = k) (rows (connection service))"
    using find_replace_row_other [of k "endpoint\<lparr>ID := i\<rparr>" "rows (connection service)"] ne by simp
  then show "Endpoint_by_ID k (snd (UpdateEndpoint i endpoint service)) = Endpoint_by_ID k service"
    by (simp add: UpdateEndpoint_def db_Save_def Endpoint_by_ID_def db_GetByID_def Let_def
          split: option.splits)
qed

theorem UpdateEndpoint_saves_under_argument_ID_witness:
  "fst (UpdateEndpoint 7 \<lparr>ID = 8, Name = ''new'', EdgeID = ''edge-abc'', LastCheckInDate = 0\<rparr>
          (NewService \<lparr>rows = [\<lparr>ID = 7, Name = ''old'', EdgeID = ''edge-abc'', LastCheckInDate = 0\<rparr>,
                               \<lparr>ID = 8, Name = ''other'', EdgeID = [], LastCheckInDate = 0\<rparr>],
                       fault = None\<rparr>)) = None
   \<and> (8::int) \<noteq> 7
   \<and> Endpoint_by_ID 7
        (snd (UpdateEndpoint 7 \<lparr>ID = 8, Name = ''new'', EdgeID = ''edge-abc'', LastCheckInDate = 0\<rparr>
          (NewService \<lparr>rows = [\<lparr>ID = 7, Name = ''old'', EdgeID = ''edge-abc'', LastCheckInDate = 0\<rparr>,
                               \<lparr>ID = 8, Name = ''other'', EdgeID = [], LastCheckInDate = 0\<rparr>],
                       fault = None\<rparr>)))
       = Inr \<lparr>ID = 7, Name = ''new'', EdgeID = ''edge-abc'', LastCheckInDate = 0\<rparr>
   \<and> Endpoint_by_ID 8
        (snd (UpdateEndpoint 7 \<lparr>ID = 8, Name = ''new'', EdgeID = ''edge-abc'', LastCheckInDate = 0\<rparr>
          (NewService \<lparr>rows = [\<lparr>ID = 7, Name = ''old'', EdgeID = ''edge-abc'', LastCheckInDate = 0\<rparr>,
                               \<lparr>ID = 8, Name = ''other'', EdgeID = [], LastCheckInDate = 0\<rparr>],
                       fault = None\<rparr>)))
       = Inr \<lparr>ID = 8, Name = ''other'', EdgeID = [], LastCheckInDate = 0\<rparr>"
proof -
  let ?e = "\<lparr>ID = 8, Name = ''new'', EdgeID = ''edge-abc'', LastCheckInDate = 0\<rparr>"
  let ?s = "NewService \<lparr>rows = [\<lparr>ID = 7, Name = ''old'', EdgeID = ''edge-abc'', LastCheckInDate = 0\<rparr>,
                               \<lparr>ID = 8, Name = ''other'', EdgeID = [], LastCheckInDate = 0\<rparr>],
                       fault = None\<rparr>"
  have ok: "fst (UpdateEndpoint 7 ?e ?s) = None"
    by (simp add: UpdateEndpoint_def db_Save_def NewService_def)
  have ne: "(8::int) \<noteq> 7" by simp
  have old: "Endpoint_by_ID 8 ?s = Inr \<lparr>ID = 8, Name = ''other'', EdgeID = [], LastCheckInDate = 0\<rparr>"
    by (simp add: Endpoint_by_ID_def db_GetByID_def NewService_def)
  from UpdateEndpoint_saves_under_argument_ID [where i = 7 and endpoint = ?e and service = ?s and k = 8] ok ne old
  show ?thesis by simp
qed

section \<open>The tunnel state machine\<close>

lemma status_names_distinct:
  "EdgeAgentIdle \<noteq> EdgeAgentActive" "EdgeAgentActive \<noteq> EdgeAgentIdle"
  "EdgeAgentManagementRequired \<noteq> EdgeAgentActive" "EdgeAgentManagementRequired \<noteq> EdgeAgentIdle"
  by (simp_all add: EdgeAgentIdle_def EdgeAgentActive_def EdgeAgentManagementRequired_def)

lemma status_sweep: "status i (sweep now c) = Status (demote now (tunnel_of i c))"
  by (simp add: status_def sweep_def tunnel_of_def demote_def status_names_distinct
        split: option.splits)

lemma tunnel_of_sweep: "tunnel_of i (sweep now c) = demote now (tunnel_of i c)"
  by (simp add: sweep_def tunnel_of_def demote_def status_names_distinct split: option.splits)

lemma tunnel_of_setActive:
  "tunnel_of i (setActive t0 port i c)
     = \<lparr>Status = EdgeAgentActive, Deadline = t0 + keepAliveDuration c, Port = port\<rparr>"
  by (simp add: setActive_def tunnel_of_def)

lemma keepAliveDuration_setRequired: "keepAliveDuration (setRequired i c) = keepAliveDuration c"
  by (simp add: setRequired_def)

text \<open>
  Claim C9. For an environment ID the coordinator has not seen, whose status is idle,
  \<open>setRequired\<close> gives required and a following \<open>setActive\<close> at time \<open>t0\<close> gives active. With
  no further activity, a sweep that runs before the keep-alive deadline
  \<open>t0 + keepAliveDuration\<close> leaves the status active, and a sweep that runs after the
  deadline, whether or not an earlier sweep ran, leaves it idle. With a keep-alive of 60
  seconds and \<open>setActive\<close> at 0, the sweep at 30 leaves active and the sweep at 61 yields
  idle.
\<close>

theorem tunnel_expires_after_keep_alive:
  assumes fresh: "tunnels c i = None"
  shows "status i c = EdgeAgentIdle
       \<and> status i (setRequired i c) = EdgeAgentManagementRequired
       \<and> status i (setActive t0 port i (setRequired i c)) = EdgeAgentActive
       \<and> (t < t0 + keepAliveDuration c \<longrightarrow>
            status i (sweep t (setActive t0 port i (setRequired i c))) = EdgeAgentActive)
       \<and> (t0 + keepAliveDuration c < t' \<longrightarrow>
            status i (sweep t' (setActive t0 port i (setRequired i c))) = EdgeAgentIdle
            \<and> status i (sweep t' (sweep t (setActive t0 port i (setRequired i c)))) = EdgeAgentIdle)"
proof -
  let ?c1 = "setActive t0 port i (setRequired i c)"
  let ?d = "t0 + keepAliveDuration c"
  have a: "tunnel_of i ?c1 = \<lparr>Status = EdgeAgentActive, Deadline = ?d, Port = port\<rparr>"
    by (simp add: tunnel_of_setActive keepAliveDuration_setRequired)
  have 0: "status i c = EdgeAgentIdle"
    using fresh by (simp add: status_def tunnel_of_def)
  have 1: "status i (setRequired i c) = EdgeAgentManagementRequired"
    by (simp add: status_def setRequired_def tunnel_of_def)
  have 2: "status i ?c1 = EdgeAgentActive"
    by (simp add: status_def a)
  have 3: "status i (sweep t ?c1) = EdgeAgentActive" if "t < ?d"
    using that by (simp add: status_sweep a demote_def)
  have 4: "status i (sweep t' ?c1) = EdgeAgentIdle" if "?d < t'"
    using that by (simp add: status_sweep a demote_def)
  have 5: "status i (sweep t' (sweep t ?c1)) = EdgeAgentIdle" if "?d < t'"
    using that by (simp add: status_sweep tunnel_of_sweep a demote_def status_names_distinct)
  show ?thesis using 0 1 2 3 4 5 by blast
qed

theorem tunnel_expires_after_keep_alive_witness:
  "tunnels \<lparr>tunnels = Map.empty, keepAliveDuration = 60\<rparr> 7 = None
   \<and> (30::int) < 0 + 60 \<and> (0::int) + 60 < 61
   \<and> status 7 (setRequired 7 \<lparr>tunnels = Map.empty, keepAliveDuration = 60\<rparr>)
        = EdgeAgentManagementRequired
   \<and> status 7 (sweep 30 (setActive 0 8000 7 (setRequired 7 \<lparr>tunnels = Map.empty, keepAliveDuration = 60\<rparr>)))
        = EdgeAgentActive
   \<and> status 7 (sweep 61 (sweep 30 (setActive 0 8000 7
          (setRequired 7 \<lparr>tunnels = Map.empty, keepAliveDuration = 60\<rparr>))))
        = EdgeAgentIdle"
proof -
  let ?c = "\<lparr>tunnels = Map.empty, keepAliveDuration = 60\<rparr>"
  have fresh: "tunnels ?c 7 = None" by simp
  have k: "keepAliveDuration ?c = 60" by simp
  have lt: "(30::int) < 0 + 60" "(0::int) + 60 < 61" by simp_all
  note T = tunnel_expires_after_keep_alive [OF fresh, where ?t0.0 = 0 and port = 8000
      and t = 30 and t' = 61, unfolded k]
  show ?thesis using T fresh lt by blast
qed

end
